theory Spec2Isabelle
  imports Complex_Main
begin

section \<open>The host framework, as far as the integrators use it\<close>

text \<open>
  The integrators of \<^verbatim>\<open>integrators/dpgintegrators.hpp\<close> and the numproc
  \<^verbatim>\<open>NumProcGetComponent\<close> are plugged into a host finite element library. Of the
  host only the calls made by the sources are modelled. A C++ \<^verbatim>\<open>double\<close> is a
  \<^typ>\<open>real\<close> (a finite value that a double holds; NaN and the infinities are outside
  the model), a \<^verbatim>\<open>Complex\<close> is a \<^typ>\<open>complex\<close>, and an \<^verbatim>\<open>int\<close> is an
  \<^typ>\<open>int\<close> kept inside the 32-bit range: a conversion or a subtraction that leaves the
  range is undefined in C++ and is an error value here.
\<close>

datatype error =
    RangeError            \<comment> \<open>an array or vector is read outside its bounds\<close>
  | HostException         \<comment> \<open>a virtual method of the host throws\<close>
  | UndefinedBehaviour    \<comment> \<open>a value does not fit into \<^verbatim>\<open>int\<close>\<close>
  | NotFound              \<comment> \<open>a named object or component does not exist\<close>
  | ViewMismatch          \<comment> \<open>a vector is viewed with the other scalar type\<close>
  | SizeMismatch          \<comment> \<open>vectors of different shape are assigned\<close>

definition INT_MIN :: int where
  "INT_MIN = - 2147483648"

definition INT_MAX :: int where
  "INT_MAX = 2147483647"

text \<open>The conversion \<^verbatim>\<open>int(x)\<close> of a double drops the fractional part.\<close>

definition trunc :: "real \<Rightarrow> int" where
  "trunc x = (if 0 \<le> x then \<lfloor>x\<rfloor> else \<lceil>x\<rceil>)"

definition double_to_int :: "real \<Rightarrow> error + int" where
  "double_to_int x =
     (let k = trunc x
      in if INT_MIN \<le> k \<and> k \<le> INT_MAX then Inr k else Inl UndefinedBehaviour)"

definition int_sub :: "int \<Rightarrow> int \<Rightarrow> error + int" where
  "int_sub a b =
     (if INT_MIN \<le> a - b \<and> a - b \<le> INT_MAX then Inr (a - b) else Inl UndefinedBehaviour)"

text \<open>
  Arithmetic on doubles gives the double nearest to the exact result, ties to the even
  significand (binary64: 53 significant bits, binary exponents from \<open>- 1022\<close> to
  \<open>1023\<close>, subnormal numbers below). \<open>binade x\<close> is the exponent of the power of two
  at or below \<open>\<bar>x\<bar>\<close>, inside that range; a result beyond the largest double is outside
  the model.
\<close>

definition binade :: "real \<Rightarrow> int" where
  "binade x =
     (case List.find (\<lambda>e. 2 powi e \<le> \<bar>x\<bar>) (rev [- 1022 .. 1023]) of
        None \<Rightarrow> - 1022
      | Some e \<Rightarrow> e)"

definition round_to_even :: "real \<Rightarrow> int" where
  "round_to_even r =
     (let f = \<lfloor>r\<rfloor>; d = r - of_int f
      in if d < 1 / 2 then f else if 1 / 2 < d then f + 1 else if even f then f else f + 1)"

definition round_double :: "real \<Rightarrow> real" where
  "round_double x = (let q = 2 powi (binade x - 52) in of_int (round_to_even (x / q)) * q)"

definition double_sub :: "real \<Rightarrow> real \<Rightarrow> real" where
  "double_sub a b = round_double (a - b)"

text \<open>
  \<^verbatim>\<open>coeffs[i]\<close> on the host's \<^verbatim>\<open>Array\<close>. The host checks the index only in
  range-checking builds and reads past the array otherwise; both are the error here.
\<close>

definition Array_get :: "'a list \<Rightarrow> nat \<Rightarrow> error + 'a" where
  "Array_get xs i = (if i < length xs then Inr (xs ! i) else Inl RangeError)"

text \<open>
  A coefficient function is an object of the host with virtual methods. The record holds
  what each method called by the integrators returns, or the error when it throws. The type
  \<open>'ip\<close> is the host's \<^verbatim>\<open>BaseMappedIntegrationPoint\<close>.
\<close>

record 'ip CoefficientFunction =
  IsComplex :: bool
  EvaluateConst :: "error + real"
  EvaluateComplex :: "'ip \<Rightarrow> error + complex"

datatype xbool = xfalse | xmaybe | xtrue

definition xbool_of_bool :: "bool \<Rightarrow> xbool" where
  "xbool_of_bool b = (if b then xtrue else xfalse)"

datatype VorB = VOL | BND


section \<open>The base class of the paired-space integrators\<close>

record 'ip DPGintegrator =
  comp1 :: "'ip CoefficientFunction"
  comp2 :: "'ip CoefficientFunction"
  ind1 :: int
  ind2 :: int

text \<open>
  Sequencing of calls that may fail: the first error ends the computation, as a thrown
  exception does.
\<close>

definition and_then :: "error + 'a \<Rightarrow> ('a \<Rightarrow> error + 'b) \<Rightarrow> error + 'b" where
  "and_then r f = (case r of Inl e \<Rightarrow> Inl e | Inr x \<Rightarrow> f x)"

text \<open>\<^verbatim>\<open>int( x ) - 1\<close>, for the value \<open>x\<close> of an evaluation that may have thrown.\<close>

definition index_of :: "error + real \<Rightarrow> error + int" where
  "index_of r = and_then r (\<lambda>x. and_then (double_to_int x) (\<lambda>k. int_sub k 1))"

text \<open>\<^verbatim>\<open>c -> EvaluateComplex(ip).real()\<close>\<close>

definition EvaluateComplex_real :: "'ip CoefficientFunction \<Rightarrow> 'ip \<Rightarrow> error + real" where
  "EvaluateComplex_real c ip = and_then (EvaluateComplex c ip) (\<lambda>z. Inr (Re z))"

text \<open>
  The constructor. The initialisers read \<^verbatim>\<open>coeffs[0]\<close> and \<^verbatim>\<open>coeffs[1]\<close>; the
  body asks the first one whether it is complex and evaluates both in the same way. The
  argument \<open>ip\<close> is the default-constructed integration point of the complex branch.
\<close>

definition DPGintegrator ::
  "'ip \<Rightarrow> 'ip CoefficientFunction list \<Rightarrow> error + 'ip DPGintegrator" where
  "DPGintegrator ip coeffs =
     and_then (Array_get coeffs 0) (\<lambda>c1.
     and_then (Array_get coeffs 1) (\<lambda>c2.
       if IsComplex c1 then
         and_then (index_of (EvaluateComplex_real c1 ip)) (\<lambda>i1.
         and_then (index_of (EvaluateComplex_real c2 ip)) (\<lambda>i2.
           Inr \<lparr>comp1 = c1, comp2 = c2, ind1 = i1, ind2 = i2\<rparr>))
       else
         and_then (index_of (EvaluateConst c1)) (\<lambda>i1.
         and_then (index_of (EvaluateConst c2)) (\<lambda>i2.
           Inr \<lparr>comp1 = c1, comp2 = c2, ind1 = i1, ind2 = i2\<rparr>))))"

definition GetInd1 :: "('ip, 'z) DPGintegrator_scheme \<Rightarrow> int" where
  "GetInd1 this = ind1 this"

definition GetInd2 :: "('ip, 'z) DPGintegrator_scheme \<Rightarrow> int" where
  "GetInd2 this = ind2 this"


section \<open>The integrator classes\<close>

text \<open>
  The eight bilinear form integrators derive from the base class and add one coefficient
  (\<^verbatim>\<open>coeff_a\<close>, \<^verbatim>\<open>coeff_d\<close> or \<^verbatim>\<open>coeff_c\<close> in the source, \<open>coeff\<close> here)
  and the template parameter \<^verbatim>\<open>D\<close>. Their constructors are the same text; their
  virtual methods differ by class. An object carries its class, and a virtual call is a
  case distinction on it.
\<close>

datatype integrator_class =
    GradGrad | FluxTrace | EyeEye | TraceTrace
  | FluxFluxBoundary | TraceTraceBoundary | RobinVolume | FluxTraceBoundary

record 'ip DPGform = "'ip DPGintegrator" +
  cls :: integrator_class
  Dim :: int
  coeff :: "'ip CoefficientFunction"

text \<open>
  \<^verbatim>\<open>Class(coeffs) : DPGintegrator(coeffs), coeff(coeffs[2])\<close>. The line printed by
  the constructor body does not change the object and is left out.
\<close>

definition new_DPGform ::
  "integrator_class \<Rightarrow> int \<Rightarrow> 'ip \<Rightarrow> 'ip CoefficientFunction list \<Rightarrow> error + 'ip DPGform" where
  "new_DPGform k d ip coeffs =
     and_then (DPGintegrator ip coeffs) (\<lambda>base.
     and_then (Array_get coeffs 2) (\<lambda>c3.
       Inr \<lparr>comp1 = comp1 base, comp2 = comp2 base, ind1 = ind1 base, ind2 = ind2 base,
            cls = k, Dim = d, coeff = c3\<rparr>))"

definition IsSymmetric :: "'ip DPGform \<Rightarrow> xbool" where
  "IsSymmetric this =
     (case cls this of
        GradGrad \<Rightarrow> xbool_of_bool (\<not> IsComplex (coeff this))
      | FluxTrace \<Rightarrow> xbool_of_bool (\<not> IsComplex (coeff this))
      | EyeEye \<Rightarrow> xbool_of_bool (\<not> IsComplex (coeff this))
      | TraceTrace \<Rightarrow> xbool_of_bool (\<not> IsComplex (coeff this))
      | FluxFluxBoundary \<Rightarrow> xbool_of_bool (\<not> IsComplex (coeff this))
      | TraceTraceBoundary \<Rightarrow> xbool_of_bool (\<not> IsComplex (coeff this))
      | RobinVolume \<Rightarrow> xbool_of_bool (\<not> IsComplex (coeff this))
      | FluxTraceBoundary \<Rightarrow> xbool_of_bool (\<not> IsComplex (coeff this)))"

definition Name :: "'ip DPGform \<Rightarrow> string" where
  "Name this =
     (case cls this of
        GradGrad \<Rightarrow> ''GradGrad''
      | FluxTrace \<Rightarrow> ''FluxTrace''
      | EyeEye \<Rightarrow> ''EyeEye''
      | TraceTrace \<Rightarrow> ''TraceTrace''
      | FluxFluxBoundary \<Rightarrow> ''FluxFluxBoundary''
      | TraceTraceBoundary \<Rightarrow> ''TraceTraceBoundary''
      | RobinVolume \<Rightarrow> ''RobinVolume''
      | FluxTraceBoundary \<Rightarrow> ''FluxTraceBoundary'')"

text \<open>The boundary classes return \<^verbatim>\<open>1\<close>, converted to \<^verbatim>\<open>bool\<close>.\<close>

definition BoundaryForm :: "'ip DPGform \<Rightarrow> bool" where
  "BoundaryForm this =
     (case cls this of
        GradGrad \<Rightarrow> False
      | FluxTrace \<Rightarrow> False
      | EyeEye \<Rightarrow> False
      | TraceTrace \<Rightarrow> False
      | FluxFluxBoundary \<Rightarrow> True
      | TraceTraceBoundary \<Rightarrow> True
      | RobinVolume \<Rightarrow> False
      | FluxTraceBoundary \<Rightarrow> True)"

definition VB :: "'ip DPGform \<Rightarrow> VorB" where
  "VB this =
     (case cls this of
        GradGrad \<Rightarrow> VOL
      | FluxTrace \<Rightarrow> VOL
      | EyeEye \<Rightarrow> VOL
      | TraceTrace \<Rightarrow> VOL
      | FluxFluxBoundary \<Rightarrow> BND
      | TraceTraceBoundary \<Rightarrow> BND
      | RobinVolume \<Rightarrow> VOL
      | FluxTraceBoundary \<Rightarrow> BND)"

text \<open>
  \<^verbatim>\<open>DimElement\<close> and \<^verbatim>\<open>DimSpace\<close> are overridden by four of the classes. The
  other four inherit the host's methods, which are not in the sources: \<open>None\<close>.
\<close>

definition DimElement :: "'ip DPGform \<Rightarrow> int option" where
  "DimElement this =
     (case cls this of
        GradGrad \<Rightarrow> None
      | FluxTrace \<Rightarrow> None
      | EyeEye \<Rightarrow> None
      | TraceTrace \<Rightarrow> None
      | FluxFluxBoundary \<Rightarrow> Some (Dim this - 1)
      | TraceTraceBoundary \<Rightarrow> Some (Dim this - 1)
      | RobinVolume \<Rightarrow> Some (Dim this)
      | FluxTraceBoundary \<Rightarrow> Some (Dim this - 1))"

definition DimSpace :: "'ip DPGform \<Rightarrow> int option" where
  "DimSpace this =
     (case cls this of
        GradGrad \<Rightarrow> None
      | FluxTrace \<Rightarrow> None
      | EyeEye \<Rightarrow> None
      | TraceTrace \<Rightarrow> None
      | FluxFluxBoundary \<Rightarrow> Some (Dim this)
      | TraceTraceBoundary \<Rightarrow> Some (Dim this)
      | RobinVolume \<Rightarrow> Some (Dim this)
      | FluxTraceBoundary \<Rightarrow> Some (Dim this))"

text \<open>
  The linear form integrator \<^verbatim>\<open>NeumannVolume\<close>. Its constructor initialises five
  members from \<^verbatim>\<open>coeffs[0]\<close> to \<^verbatim>\<open>coeffs[4]\<close>, for every \<^verbatim>\<open>D\<close>, and
  resolves the index by constant evaluation.
\<close>

record 'ip NeumannVolume =
  nv_Dim :: int
  coeff_index :: "'ip CoefficientFunction"
  coeff_g :: "'ip CoefficientFunction"
  coeff_Gx :: "'ip CoefficientFunction"
  coeff_Gy :: "'ip CoefficientFunction"
  coeff_Gz :: "'ip CoefficientFunction"
  indx :: int

definition NeumannVolume ::
  "int \<Rightarrow> 'ip CoefficientFunction list \<Rightarrow> error + 'ip NeumannVolume" where
  "NeumannVolume d coeffs =
     and_then (Array_get coeffs 0) (\<lambda>c0.
     and_then (Array_get coeffs 1) (\<lambda>c1.
     and_then (Array_get coeffs 2) (\<lambda>c2.
     and_then (Array_get coeffs 3) (\<lambda>c3.
     and_then (Array_get coeffs 4) (\<lambda>c4.
     and_then (index_of (EvaluateConst c0)) (\<lambda>i.
       Inr \<lparr>nv_Dim = d, coeff_index = c0, coeff_g = c1, coeff_Gx = c2,
            coeff_Gy = c3, coeff_Gz = c4, indx = i\<rparr>))))))"

definition nv_Name :: "'ip NeumannVolume \<Rightarrow> string" where
  "nv_Name this = ''NeumannVolume''"

definition nv_DimElement :: "'ip NeumannVolume \<Rightarrow> int" where
  "nv_DimElement this = nv_Dim this"

definition nv_DimSpace :: "'ip NeumannVolume \<Rightarrow> int" where
  "nv_DimSpace this = nv_Dim this"

definition nv_BoundaryForm :: "'ip NeumannVolume \<Rightarrow> bool" where
  "nv_BoundaryForm this = False"

definition nv_VB :: "'ip NeumannVolume \<Rightarrow> VorB" where
  "nv_VB this = VOL"


section \<open>The numproc GetComponent\<close>

text \<open>A vector of the host stores real or complex entries.\<close>

datatype BaseVector = RealVector "real list" | ComplexVector "complex list"

text \<open>
  Modelled from the spec: the typed views \<^verbatim>\<open>FV<double>()\<close> and
  \<^verbatim>\<open>FV<Complex>()\<close> and the assignment of vectors belong to the host and are not
  among the sources. The view with the scalar type of the vector is its list of entries,
  and an assignment copies a vector into one of the same scalar type and size; what the
  host does with the other scalar type or with another size is a contract violation in the
  spec and an error here.
\<close>

definition FV_double :: "BaseVector \<Rightarrow> error + real list" where
  "FV_double v = (case v of RealVector xs \<Rightarrow> Inr xs | ComplexVector zs \<Rightarrow> Inl ViewMismatch)"

definition FV_Complex :: "BaseVector \<Rightarrow> error + complex list" where
  "FV_Complex v = (case v of RealVector xs \<Rightarrow> Inl ViewMismatch | ComplexVector zs \<Rightarrow> Inr zs)"

definition assign :: "BaseVector \<Rightarrow> BaseVector \<Rightarrow> error + BaseVector" where
  "assign dst src =
     (case (dst, src) of
        (RealVector xs, RealVector ys) \<Rightarrow>
          if length xs = length ys then Inr (RealVector ys) else Inl SizeMismatch
      | (ComplexVector ws, ComplexVector zs) \<Rightarrow>
          if length ws = length zs then Inr (ComplexVector zs) else Inl SizeMismatch
      | _ \<Rightarrow> Inl SizeMismatch)"

text \<open>
  Of a grid function the numproc uses the class name of its space, its vector, and the
  vectors of its components. The vectors are separate values: memory shared between
  grid functions is outside the model.
\<close>

record GridFunction =
  ClassName :: string
  Vector :: BaseVector
  Components :: "BaseVector list"

text \<open>\<^verbatim>\<open>gf -> GetComponent(k) -> GetVector()\<close>\<close>

definition GetComponent :: "GridFunction \<Rightarrow> int \<Rightarrow> error + BaseVector" where
  "GetComponent gf k =
     (if 0 \<le> k \<and> k < int (length (Components gf)) then Inr (Components gf ! nat k)
      else Inl NotFound)"

record Flags =
  StringFlags :: "string \<rightharpoonup> string"
  NumFlags :: "string \<rightharpoonup> real"
  DefineFlags :: "string list"

text \<open>The default of the two string flags is \<^verbatim>\<open>NULL\<close>: \<open>None\<close>.\<close>

definition GetStringFlag :: "Flags \<Rightarrow> string \<Rightarrow> string option" where
  "GetStringFlag flags name = StringFlags flags name"

definition GetNumFlag :: "Flags \<Rightarrow> string \<Rightarrow> real \<Rightarrow> real" where
  "GetNumFlag flags name def = (case NumFlags flags name of None \<Rightarrow> def | Some v \<Rightarrow> v)"

definition GetDefineFlag :: "Flags \<Rightarrow> string \<Rightarrow> bool" where
  "GetDefineFlag flags name = (name \<in> set (DefineFlags flags))"

type_synonym PDE = "string \<rightharpoonup> GridFunction"

definition GetGridFunction :: "PDE \<Rightarrow> string option \<Rightarrow> error + GridFunction" where
  "GetGridFunction pde name =
     (case name of
        None \<Rightarrow> Inl NotFound
      | Some n \<Rightarrow> (case pde n of None \<Rightarrow> Inl NotFound | Some gf \<Rightarrow> Inr gf))"

text \<open>
  The members \<^verbatim>\<open>gf1\<close> and \<^verbatim>\<open>gf2\<close> are shared pointers; the record holds the two
  objects they point to.
\<close>

record NumProcGetComponent =
  gf1 :: GridFunction
  gf2 :: GridFunction
  ind :: int
  re :: bool
  im :: bool

text \<open>
  The constructor. \<^verbatim>\<open>GetNumFlag("comp",1) - 1\<close> is a subtraction of doubles, converted
  to \<^verbatim>\<open>int\<close> by the initialisation of \<^verbatim>\<open>ind\<close>.
\<close>

definition NumProcGetComponent :: "PDE \<Rightarrow> Flags \<Rightarrow> error + NumProcGetComponent" where
  "NumProcGetComponent apde flags =
     and_then (GetGridFunction apde (GetStringFlag flags ''compoundgf'')) (\<lambda>g1.
     and_then (double_to_int (double_sub (GetNumFlag flags ''comp'' 1) 1)) (\<lambda>k.
     and_then (GetGridFunction apde (GetStringFlag flags ''componentgf'')) (\<lambda>g2.
       Inr \<lparr>gf1 = g1, gf2 = g2, ind = k,
            re = GetDefineFlag flags ''re'', im = GetDefineFlag flags ''im''\<rparr>)))"

text \<open>
  The body of the two loops of \<^verbatim>\<open>Do\<close>, for the projection \<open>part\<close>
  (\<^verbatim>\<open>.real()\<close> or \<^verbatim>\<open>.imag()\<close>):
  \<^verbatim>\<open>gf2->GetVector().FV<double>()[i] = (gf1->GetComponent(ind)->GetVector().FV<Complex>()[i]).part()\<close>.
  The host's vector views do not check the index; a read past the source is the error.
\<close>

definition copy_entry ::
  "(complex \<Rightarrow> real) \<Rightarrow> nat \<Rightarrow> NumProcGetComponent \<Rightarrow> error + NumProcGetComponent" where
  "copy_entry part i this =
     and_then (GetComponent (gf1 this) (ind this)) (\<lambda>c.
     and_then (FV_Complex c) (\<lambda>src.
     and_then (Array_get src i) (\<lambda>z.
     and_then (FV_double (Vector (gf2 this))) (\<lambda>dst.
       Inr (this\<lparr>gf2 := (gf2 this)\<lparr>Vector := RealVector (dst[i := part z])\<rparr>\<rparr>)))))"

text \<open>
  The loop \<^verbatim>\<open>for (int i=0; i < gf2->GetVector().FV<double>().Size(); i++ )\<close>, from
  the counter \<open>i\<close> on. The size is read again in every round.
\<close>

function copy_part ::
  "(complex \<Rightarrow> real) \<Rightarrow> nat \<Rightarrow> NumProcGetComponent \<Rightarrow> error + NumProcGetComponent" where
  "copy_part part i this =
     (case FV_double (Vector (gf2 this)) of
        Inl e \<Rightarrow> Inl e
      | Inr dst \<Rightarrow>
          if i < length dst then
            (case copy_entry part i this of
               Inl e \<Rightarrow> Inl e
             | Inr this' \<Rightarrow> copy_part part (Suc i) this')
          else Inr this)"
  by pat_completeness auto
termination
proof (relation "measure (\<lambda>(part, i, this).
         (case Vector (gf2 this) of RealVector xs \<Rightarrow> length xs | ComplexVector zs \<Rightarrow> 0) - i)")
  show "wf (measure (\<lambda>(part, i, this).
         (case Vector (gf2 this) of RealVector xs \<Rightarrow> length xs | ComplexVector zs \<Rightarrow> 0) - i))"
    by simp
next
  fix part :: "complex \<Rightarrow> real" and i :: nat and this this' :: NumProcGetComponent
    and dst :: "real list"
  assume v: "FV_double (Vector (gf2 this)) = Inr dst" and i: "i < length dst"
    and s: "copy_entry part i this = Inr this'"
  from v have "Vector (gf2 this) = RealVector dst"
    by (cases "Vector (gf2 this)") (simp_all add: FV_double_def)
  moreover from s v obtain z where "Vector (gf2 this') = RealVector (dst[i := part z])"
    by (auto simp add: copy_entry_def and_then_def split: sum.splits)
  ultimately show "((part, Suc i, this'), (part, i, this)) \<in> measure (\<lambda>(part, i, this).
         (case Vector (gf2 this) of RealVector xs \<Rightarrow> length xs | ComplexVector zs \<Rightarrow> 0) - i)"
    using i by simp
qed

text \<open>What \<^verbatim>\<open>Do\<close> writes to the console, piece by piece.\<close>

datatype out_item = Str string | Num int | Endl

text \<open>
  \<^verbatim>\<open>Do\<close>: the console output, and the numproc with the destination written, or the
  error. The local heap is not used. The number printed is the sum \<^verbatim>\<open>ind+1\<close> as an
  integer; the vector sizes are taken to fit the loop counter.
\<close>

definition Do :: "NumProcGetComponent \<Rightarrow> out_item list \<times> (error + NumProcGetComponent)" where
  "Do this =
     (let head = [Str ''GetComponent '', Num (ind this + 1), Str '', of type '',
                  Str (ClassName (gf2 this))]
      in if re this then
           (head @ [Str '', REAL part'', Endl], copy_part Re 0 this)
         else if im this then
           (head @ [Str '', IMAG part'', Endl], copy_part Im 0 this)
         else
           (head @ [Endl],
            and_then (GetComponent (gf1 this) (ind this)) (\<lambda>c.
            and_then (assign (Vector (gf2 this)) c) (\<lambda>v.
              Inr (this\<lparr>gf2 := (gf2 this)\<lparr>Vector := v\<rparr>\<rparr>)))))"


section \<open>Constant coefficients and the resolution of an index, as the spec words them\<close>

text \<open>
  Modelled from the spec: the host's constant coefficient functions are not among the
  sources. A coefficient is real or complex and is queried in the mode that fits it. The
  real constant answers constant evaluation with its value (and point evaluation with the
  same value); the complex constant answers point evaluation, and constant evaluation of
  it is refused.
\<close>

definition ConstantCoefficientFunction :: "real \<Rightarrow> 'ip CoefficientFunction" where
  "ConstantCoefficientFunction v =
     \<lparr>IsComplex = False, EvaluateConst = Inr v,
      EvaluateComplex = (\<lambda>ip. Inr (complex_of_real v))\<rparr>"

definition ConstantCoefficientFunctionC :: "complex \<Rightarrow> 'ip CoefficientFunction" where
  "ConstantCoefficientFunctionC z =
     \<lparr>IsComplex = True, EvaluateConst = Inl HostException, EvaluateComplex = (\<lambda>ip. Inr z)\<rparr>"

text \<open>
  The spec's resolution of one index argument: by constant evaluation when that argument is
  real-valued, by complex point evaluation when it is complex-valued; then truncated and
  decremented.
\<close>

definition resolve_by_own_type :: "'ip \<Rightarrow> 'ip CoefficientFunction \<Rightarrow> error + int" where
  "resolve_by_own_type ip c =
     (if IsComplex c then index_of (EvaluateComplex_real c ip) else index_of (EvaluateConst c))"

text \<open>The same, with the mode chosen by the scalar type of another coefficient \<open>c0\<close>.\<close>

definition resolve_by_type_of ::
  "'ip CoefficientFunction \<Rightarrow> 'ip \<Rightarrow> 'ip CoefficientFunction \<Rightarrow> error + int" where
  "resolve_by_type_of c0 ip c =
     (if IsComplex c0 then index_of (EvaluateComplex_real c ip) else index_of (EvaluateConst c))"

text \<open>The base object whose two indices are resolved, first then second, by \<open>r\<close>.\<close>

definition resolved ::
  "('ip CoefficientFunction \<Rightarrow> error + int) \<Rightarrow> 'ip CoefficientFunction list
     \<Rightarrow> error + 'ip DPGintegrator" where
  "resolved r coeffs =
     and_then (Array_get coeffs 0) (\<lambda>c1.
     and_then (Array_get coeffs 1) (\<lambda>c2.
     and_then (r c1) (\<lambda>i1.
     and_then (r c2) (\<lambda>i2.
       Inr \<lparr>comp1 = c1, comp2 = c2, ind1 = i1, ind2 = i2\<rparr>))))"


section \<open>Auxiliary facts\<close>

declare copy_part.simps [simp del]

lemma and_then_Inl: "and_then (Inl e) f = Inl e"
  by (simp add: and_then_def)

lemma and_then_Inr: "and_then (Inr x) f = f x"
  by (simp add: and_then_def)

lemma and_then_eq_Inr:
  "and_then r f = Inr y \<longleftrightarrow> (\<exists>x. r = Inr x \<and> f x = Inr y)"
  by (cases r) (simp_all add: and_then_def)

lemma Array_get_Cons_0: "Array_get (x # xs) 0 = Inr x"
  by (simp add: Array_get_def)

lemma Array_get_Cons_Suc: "Array_get (x # xs) (Suc i) = Array_get xs i"
  by (simp add: Array_get_def)

lemma trunc_of_int: "trunc (of_int k) = k"
  by (simp add: trunc_def)

lemma index_of_of_int:
  assumes "INT_MIN < k" and "k \<le> INT_MAX"
  shows "index_of (Inr (of_int k)) = Inr (k - 1)"
  using assms
  by (simp add: index_of_def and_then_Inr double_to_int_def trunc_of_int int_sub_def)

lemma DPGintegrator_real_constants:
  assumes "INT_MIN < a" "a \<le> INT_MAX" "INT_MIN < b" "b \<le> INT_MAX"
  shows "DPGintegrator ip
           (ConstantCoefficientFunction (of_int a) # ConstantCoefficientFunction (of_int b) # rest)
         = Inr \<lparr>comp1 = ConstantCoefficientFunction (of_int a),
                comp2 = ConstantCoefficientFunction (of_int b), ind1 = a - 1, ind2 = b - 1\<rparr>"
  using assms
  by (simp add: DPGintegrator_def Array_get_Cons_0 Array_get_Cons_Suc and_then_Inr
      ConstantCoefficientFunction_def index_of_of_int)

lemma DPGintegrator_complex_constants:
  assumes "INT_MIN < a" "a \<le> INT_MAX" "INT_MIN < b" "b \<le> INT_MAX"
  shows "DPGintegrator ip
           (ConstantCoefficientFunctionC (of_int a) # ConstantCoefficientFunctionC (of_int b) # rest)
         = Inr \<lparr>comp1 = ConstantCoefficientFunctionC (of_int a),
                comp2 = ConstantCoefficientFunctionC (of_int b), ind1 = a - 1, ind2 = b - 1\<rparr>"
  using assms
  by (simp add: DPGintegrator_def Array_get_Cons_0 Array_get_Cons_Suc and_then_Inr
      ConstantCoefficientFunctionC_def EvaluateComplex_real_def index_of_of_int)

lemma DPGintegrator_complex_real_constants:
  assumes "INT_MIN < a" "a \<le> INT_MAX" "INT_MIN < b" "b \<le> INT_MAX"
  shows "DPGintegrator ip
           (ConstantCoefficientFunctionC (of_int a) # ConstantCoefficientFunction (of_int b) # rest)
         = Inr \<lparr>comp1 = ConstantCoefficientFunctionC (of_int a),
                comp2 = ConstantCoefficientFunction (of_int b), ind1 = a - 1, ind2 = b - 1\<rparr>"
  using assms
  by (simp add: DPGintegrator_def Array_get_Cons_0 Array_get_Cons_Suc and_then_Inr
      ConstantCoefficientFunctionC_def ConstantCoefficientFunction_def
      EvaluateComplex_real_def index_of_of_int)

lemma round_double_0: "round_double 0 = 0"
  by (simp add: round_double_def round_to_even_def)

lemma new_DPGform_Inr:
  assumes "new_DPGform k dm ip coeffs = Inr d"
  shows "cls d = k \<and> Dim d = dm \<and> Array_get coeffs 2 = Inr (coeff d)"
  using assms
  by (auto simp add: new_DPGform_def and_then_eq_Inr)

lemma copy_entry_in_range:
  assumes "GetComponent (gf1 this) (ind this) = Inr (ComplexVector zs)"
    and "Vector (gf2 this) = RealVector xs" and "i < length zs"
  shows "copy_entry part i this =
           Inr (this\<lparr>gf2 := (gf2 this)\<lparr>Vector := RealVector (xs[i := part (zs ! i)])\<rparr>\<rparr>)"
  using assms
  by (simp add: copy_entry_def and_then_Inr FV_Complex_def FV_double_def Array_get_def)

lemma take_Suc_update_append:
  assumes "i < length xs"
  shows "take (Suc i) (xs[i := a]) @ ys = take i xs @ a # ys"
  using assms by (simp add: take_Suc_conv_app_nth)

lemma copy_part_closed:
  assumes "GetComponent (gf1 this) (ind this) = Inr (ComplexVector zs)"
    and "Vector (gf2 this) = RealVector xs"
    and "length xs \<le> length zs" and "i \<le> length xs"
  shows "copy_part part i this =
           Inr (this\<lparr>gf2 := (gf2 this)\<lparr>Vector :=
                  RealVector (take i xs @ map part (drop i (take (length xs) zs)))\<rparr>\<rparr>)"
  using assms
proof (induction "length xs - i" arbitrary: i xs this)
  case 0
  then have "i = length xs" by simp
  with 0 show ?case
    by (subst copy_part.simps) (simp add: FV_double_def)
next
  case (Suc k)
  then have i: "i < length xs" "i < length zs" by simp_all
  let ?xs = "xs[i := part (zs ! i)]"
  let ?np = "this\<lparr>gf2 := (gf2 this)\<lparr>Vector := RealVector ?xs\<rparr>\<rparr>"
  have step: "copy_entry part i this = Inr ?np"
    using Suc.prems(1,2) i(2) by (rule copy_entry_in_range)
  have "copy_part part (Suc i) ?np =
          Inr (?np\<lparr>gf2 := (gf2 ?np)\<lparr>Vector :=
                 RealVector (take (Suc i) ?xs @ map part (drop (Suc i) (take (length ?xs) zs)))\<rparr>\<rparr>)"
  proof (rule Suc.hyps(1))
    show "k = length ?xs - Suc i" using Suc.hyps(2) by simp
    show "GetComponent (gf1 ?np) (ind ?np) = Inr (ComplexVector zs)"
      using Suc.prems(1) by simp
    show "Vector (gf2 ?np) = RealVector ?xs" by simp
    show "length ?xs \<le> length zs" using Suc.prems(3) by simp
    show "Suc i \<le> length ?xs" using i(1) by simp
  qed
  moreover have "drop i (take (length xs) zs) = zs ! i # drop (Suc i) (take (length xs) zs)"
  proof -
    have "i < length (take (length xs) zs)" using i by simp
    then have "drop i (take (length xs) zs) =
        take (length xs) zs ! i # drop (Suc i) (take (length xs) zs)"
      by (rule Cons_nth_drop_Suc [symmetric])
    then show ?thesis using i(1) by simp
  qed
  ultimately have "copy_part part (Suc i) ?np =
      Inr (this\<lparr>gf2 := (gf2 this)\<lparr>Vector :=
                  RealVector (take i xs @ map part (drop i (take (length xs) zs)))\<rparr>\<rparr>)"
    using i(1) by (simp add: take_Suc_update_append)
  then show ?case
    using Suc.prems(2) i(1) step
    by (subst copy_part.simps) (simp add: FV_double_def)
qed

lemma copy_entry_im:
  "copy_entry part i (this\<lparr>im := b\<rparr>) = map_sum (\<lambda>e. e) (\<lambda>n. n\<lparr>im := b\<rparr>) (copy_entry part i this)"
  by (simp add: copy_entry_def and_then_def split: sum.splits)

lemma copy_part_im:
  "copy_part part i (this\<lparr>im := b\<rparr>) = map_sum (\<lambda>e. e) (\<lambda>n. n\<lparr>im := b\<rparr>) (copy_part part i this)"
proof (induction part i this rule: copy_part.induct)
  case (1 part i this)
  show ?case
  proof (cases "FV_double (Vector (gf2 this))")
    case (Inl e)
    then show ?thesis
      by (subst (1 2) copy_part.simps) simp
  next
    case (Inr dst)
    show ?thesis
    proof (cases "i < length dst")
      case False
      with Inr show ?thesis
        by (subst (1 2) copy_part.simps) simp
    next
      case True
      show ?thesis
      proof (cases "copy_entry part i this")
        case (Inl e)
        with Inr True show ?thesis
          by (subst (1 2) copy_part.simps) (simp add: copy_entry_im)
      next
        case step: (Inr this')
        from "1.IH" [OF Inr True step] Inr True step show ?thesis
          by (subst (1 2) copy_part.simps) (simp add: copy_entry_im)
      qed
    qed
  qed
qed

lemma GetComponent_0: "GetComponent \<lparr>ClassName = n, Vector = v, Components = c # cs\<rparr> 0 = Inr c"
  by (simp add: GetComponent_def)


section \<open>The index arguments\<close>

text \<open>
  Claim C1, as amended. Let \<open>i\<close> and \<open>j\<close> be component indices of a compound space
  with \<open>n\<close> components (\<open>n\<close> is an \<^verbatim>\<open>int\<close>). An integrator of any of the eight
  paired-space classes, constructed from coefficients that begin with the constants
  \<open>i + 1\<close> and \<open>j + 1\<close>, the second one complex-valued only if the first one is, exists
  and answers \<open>i\<close> to \<^verbatim>\<open>GetInd1()\<close> and \<open>j\<close> to \<^verbatim>\<open>GetInd2()\<close>: for two
  real constants, for two complex constants, and for a complex constant followed by a real
  one.
\<close>

theorem indices_of_constants:
  assumes "0 \<le> i" "i < n" "0 \<le> j" "j < n" "n \<le> INT_MAX"
  shows "(\<exists>d. new_DPGform k dm ip (ConstantCoefficientFunction (of_int (i + 1))
                 # ConstantCoefficientFunction (of_int (j + 1)) # c3 # rest) = Inr d
              \<and> GetInd1 d = i \<and> GetInd2 d = j)
       \<and> (\<exists>d. new_DPGform k dm ip (ConstantCoefficientFunctionC (of_int (i + 1))
                 # ConstantCoefficientFunctionC (of_int (j + 1)) # c3 # rest) = Inr d
              \<and> GetInd1 d = i \<and> GetInd2 d = j)
       \<and> (\<exists>d. new_DPGform k dm ip (ConstantCoefficientFunctionC (of_int (i + 1))
                 # ConstantCoefficientFunction (of_int (j + 1)) # c3 # rest) = Inr d
              \<and> GetInd1 d = i \<and> GetInd2 d = j)"
proof -
  have r: "INT_MIN < i + 1" "i + 1 \<le> INT_MAX" "INT_MIN < j + 1" "j + 1 \<le> INT_MAX"
    using assms by (simp_all add: INT_MIN_def)
  show ?thesis
    by (simp del: of_int_add add: new_DPGform_def DPGintegrator_real_constants [OF r]
        DPGintegrator_complex_constants [OF r] DPGintegrator_complex_real_constants [OF r]
        and_then_Inr Array_get_Cons_0 Array_get_Cons_Suc GetInd1_def GetInd2_def numeral_2_eq_2)
qed

theorem indices_of_constants_witness:
  "(\<exists>d. new_DPGform GradGrad 2 () [ConstantCoefficientFunction 3, ConstantCoefficientFunction 1,
          ConstantCoefficientFunction 1] = Inr d \<and> GetInd1 d = 2 \<and> GetInd2 d = 0)
   \<and> (\<exists>d. new_DPGform GradGrad 2 () [ConstantCoefficientFunctionC 3, ConstantCoefficientFunction 1,
          ConstantCoefficientFunction 1] = Inr d \<and> GetInd1 d = 2 \<and> GetInd2 d = 0)"
  using indices_of_constants [of 2 3 0 GradGrad 2 "()" "ConstantCoefficientFunction 1" "[]"]
  by (simp add: INT_MAX_def)

text \<open>
  Claim C1 as it is stated fails for a real constant followed by a complex constant: the
  constructor sees a real first argument and asks both for their constant evaluation, which
  the complex constant 2 refuses, so no integrator with the indices 0 and 1 is constructed.
\<close>

theorem real_then_complex_constants_counterexample:
  "new_DPGform GradGrad 2 ()
     [ConstantCoefficientFunction 1, ConstantCoefficientFunctionC 2, ConstantCoefficientFunction 1]
   = Inl HostException"
  by (simp add: new_DPGform_def DPGintegrator_def Array_get_def and_then_def
      ConstantCoefficientFunction_def ConstantCoefficientFunctionC_def
      index_of_def double_to_int_def trunc_def int_sub_def INT_MIN_def INT_MAX_def)

text \<open>
  Claim C4, as amended. The constructor resolves both index arguments in the mode chosen by
  the scalar type of the first argument: constant evaluation when the first argument is
  real-valued, the real part of the complex point evaluation when it is complex-valued;
  the value is truncated and decremented. When the second argument has the scalar type of
  the first, each argument is resolved in the mode of its own type.
\<close>

theorem index_mode_follows_first_argument:
  "DPGintegrator ip (c1 # c2 # rest) = resolved (resolve_by_type_of c1 ip) (c1 # c2 # rest)
   \<and> (IsComplex c2 = IsComplex c1 \<longrightarrow>
        DPGintegrator ip (c1 # c2 # rest) = resolved (resolve_by_own_type ip) (c1 # c2 # rest))"
  by (simp add: DPGintegrator_def resolved_def resolve_by_type_of_def resolve_by_own_type_def
      Array_get_Cons_0 Array_get_Cons_Suc and_then_Inr)

theorem index_mode_follows_first_argument_witness:
  "IsComplex (ConstantCoefficientFunction 2 :: unit CoefficientFunction)
     = IsComplex (ConstantCoefficientFunction 1 :: unit CoefficientFunction)
   \<and> DPGintegrator () [ConstantCoefficientFunction 1, ConstantCoefficientFunction 2]
     = resolved (resolve_by_own_type ())
         [ConstantCoefficientFunction 1, ConstantCoefficientFunction 2]"
proof -
  have "IsComplex (ConstantCoefficientFunction 2 :: unit CoefficientFunction)
      = IsComplex (ConstantCoefficientFunction 1 :: unit CoefficientFunction)"
    by (simp add: ConstantCoefficientFunction_def)
  with index_mode_follows_first_argument
    [of "()" "ConstantCoefficientFunction 1" "ConstantCoefficientFunction 2" "[]"]
  show ?thesis by blast
qed

text \<open>
  Claim C4 as it is stated fails: with a real first argument and a complex second argument
  the constructor asks the second one for its constant evaluation, which the complex
  constant refuses, while the resolution of each argument by its own type gives the
  indices 0 and 1.
\<close>

theorem own_type_resolution_counterexample:
  "DPGintegrator () [ConstantCoefficientFunction 1, ConstantCoefficientFunctionC 2]
     \<noteq> resolved (resolve_by_own_type ())
           [ConstantCoefficientFunction 1, ConstantCoefficientFunctionC 2]"
  by (simp add: DPGintegrator_def resolved_def resolve_by_own_type_def
      Array_get_def and_then_def ConstantCoefficientFunction_def ConstantCoefficientFunctionC_def
      index_of_def EvaluateComplex_real_def double_to_int_def trunc_def int_sub_def
      INT_MIN_def INT_MAX_def)


section \<open>The virtual methods\<close>

text \<open>
  Claim C2. For an integrator of the classes GradGrad, EyeEye, TraceTrace, FluxFluxBoundary,
  TraceTraceBoundary, RobinVolume and FluxTraceBoundary, \<^verbatim>\<open>IsSymmetric()\<close> is true
  when the third constructor argument is real-valued and false when it is complex-valued.
\<close>

theorem IsSymmetric_iff_real_coefficient:
  assumes "k \<in> {GradGrad, EyeEye, TraceTrace, FluxFluxBoundary, TraceTraceBoundary,
                 RobinVolume, FluxTraceBoundary}"
    and "new_DPGform k dm ip coeffs = Inr d"
  shows "\<exists>c3. Array_get coeffs 2 = Inr c3
           \<and> (\<not> IsComplex c3 \<longrightarrow> IsSymmetric d = xtrue)
           \<and> (IsComplex c3 \<longrightarrow> IsSymmetric d = xfalse)"
proof -
  have d: "cls d = k" "Array_get coeffs 2 = Inr (coeff d)"
    using new_DPGform_Inr [OF assms(2)] by simp_all
  have "IsSymmetric d = xbool_of_bool (\<not> IsComplex (coeff d))"
    by (cases "cls d") (simp_all add: IsSymmetric_def)
  then show ?thesis
    using d(2) by (simp add: xbool_of_bool_def)
qed

theorem IsSymmetric_iff_real_coefficient_witness:
  "\<exists>d. new_DPGform RobinVolume 2 () [ConstantCoefficientFunction 1, ConstantCoefficientFunction 2,
          ConstantCoefficientFunctionC \<i>] = Inr d \<and> IsSymmetric d = xfalse"
proof -
  let ?cs = "[ConstantCoefficientFunction 1, ConstantCoefficientFunction 2,
              ConstantCoefficientFunctionC \<i>] :: unit CoefficientFunction list"
  have "INT_MIN < 1" "1 \<le> INT_MAX" "INT_MIN < 2" "2 \<le> INT_MAX"
    by (simp_all add: INT_MIN_def INT_MAX_def)
  from DPGintegrator_real_constants [OF this, of "()" "[ConstantCoefficientFunctionC \<i>]"]
  obtain d where d: "new_DPGform RobinVolume 2 () ?cs = Inr d"
    by (simp add: new_DPGform_def and_then_Inr Array_get_def)
  have "RobinVolume \<in> {GradGrad, EyeEye, TraceTrace, FluxFluxBoundary, TraceTraceBoundary,
                 RobinVolume, FluxTraceBoundary}"
    by simp
  from IsSymmetric_iff_real_coefficient [OF this d] d show ?thesis
    by (simp add: Array_get_def ConstantCoefficientFunctionC_def)
qed

text \<open>
  Claim C6. An integrator of the classes FluxFluxBoundary, TraceTraceBoundary and
  FluxTraceBoundary answers true to \<^verbatim>\<open>BoundaryForm()\<close>, the boundary selector to
  \<^verbatim>\<open>VB()\<close>, \<open>D - 1\<close> to \<^verbatim>\<open>DimElement()\<close> and \<open>D\<close> to \<^verbatim>\<open>DimSpace()\<close>.
\<close>

theorem boundary_classes:
  assumes "cls d \<in> {FluxFluxBoundary, TraceTraceBoundary, FluxTraceBoundary}"
  shows "BoundaryForm d \<and> VB d = BND
       \<and> DimElement d = Some (Dim d - 1) \<and> DimSpace d = Some (Dim d)"
  using assms
  by (auto simp add: BoundaryForm_def VB_def DimElement_def DimSpace_def)

theorem boundary_classes_witness:
  "BoundaryForm \<lparr>comp1 = ConstantCoefficientFunction 1, comp2 = ConstantCoefficientFunction 2,
       ind1 = 0, ind2 = 1, cls = FluxTraceBoundary, Dim = 3,
       coeff = ConstantCoefficientFunction 1 :: unit CoefficientFunction\<rparr>
   \<and> DimElement \<lparr>comp1 = ConstantCoefficientFunction 1, comp2 = ConstantCoefficientFunction 2,
       ind1 = 0, ind2 = 1, cls = FluxTraceBoundary, Dim = 3,
       coeff = ConstantCoefficientFunction 1 :: unit CoefficientFunction\<rparr> = Some 2
   \<and> DimSpace \<lparr>comp1 = ConstantCoefficientFunction 1, comp2 = ConstantCoefficientFunction 2,
       ind1 = 0, ind2 = 1, cls = FluxTraceBoundary, Dim = 3,
       coeff = ConstantCoefficientFunction 1 :: unit CoefficientFunction\<rparr> = Some 3"
  using boundary_classes [of "\<lparr>comp1 = ConstantCoefficientFunction 1,
       comp2 = ConstantCoefficientFunction 2, ind1 = 0, ind2 = 1, cls = FluxTraceBoundary, Dim = 3,
       coeff = ConstantCoefficientFunction 1 :: unit CoefficientFunction\<rparr>"]
  by simp

text \<open>
  Claim C7. A RobinVolume integrator reports a volume form: \<^verbatim>\<open>BoundaryForm()\<close> is
  false, \<^verbatim>\<open>VB()\<close> is the volume selector, and \<^verbatim>\<open>DimElement()\<close> and
  \<^verbatim>\<open>DimSpace()\<close> are both \<open>D\<close>.
\<close>

theorem RobinVolume_is_volume_form:
  assumes "cls d = RobinVolume"
  shows "\<not> BoundaryForm d \<and> VB d = VOL
       \<and> DimElement d = Some (Dim d) \<and> DimSpace d = Some (Dim d)"
  using assms
  by (simp add: BoundaryForm_def VB_def DimElement_def DimSpace_def)

theorem RobinVolume_is_volume_form_witness:
  "\<not> BoundaryForm \<lparr>comp1 = ConstantCoefficientFunction 1, comp2 = ConstantCoefficientFunction 2,
       ind1 = 0, ind2 = 1, cls = RobinVolume, Dim = 2,
       coeff = ConstantCoefficientFunction 1 :: unit CoefficientFunction\<rparr>
   \<and> DimElement \<lparr>comp1 = ConstantCoefficientFunction 1, comp2 = ConstantCoefficientFunction 2,
       ind1 = 0, ind2 = 1, cls = RobinVolume, Dim = 2,
       coeff = ConstantCoefficientFunction 1 :: unit CoefficientFunction\<rparr> = Some 2
   \<and> DimSpace \<lparr>comp1 = ConstantCoefficientFunction 1, comp2 = ConstantCoefficientFunction 2,
       ind1 = 0, ind2 = 1, cls = RobinVolume, Dim = 2,
       coeff = ConstantCoefficientFunction 1 :: unit CoefficientFunction\<rparr> = Some 2"
  using RobinVolume_is_volume_form [of "\<lparr>comp1 = ConstantCoefficientFunction 1,
       comp2 = ConstantCoefficientFunction 2, ind1 = 0, ind2 = 1, cls = RobinVolume, Dim = 2,
       coeff = ConstantCoefficientFunction 1 :: unit CoefficientFunction\<rparr>"]
  by simp


section \<open>The source integrator\<close>

text \<open>
  Claim C3. The comment above \<^verbatim>\<open>NeumannVolume\<close> gives the two-dimensional call with
  four arguments (index, g, Gx, Gy). The constructor reads \<^verbatim>\<open>coeffs[4]\<close> for every
  \<^verbatim>\<open>D\<close>: with \<open>D = 2\<close> and these four arguments it reads past the array and no
  object is constructed. With \<open>D = 3\<close> and five arguments the object is constructed and
  the fifth argument is its \<^verbatim>\<open>coeff_Gz\<close>.
\<close>

theorem NeumannVolume_2D_four_arguments:
  "NeumannVolume 2 [ConstantCoefficientFunction 1, ConstantCoefficientFunction 0,
       ConstantCoefficientFunction 1, ConstantCoefficientFunction 0 :: unit CoefficientFunction]
     = Inl RangeError
   \<and> NeumannVolume 3 [ConstantCoefficientFunction 1, ConstantCoefficientFunction 0,
       ConstantCoefficientFunction 1, ConstantCoefficientFunction 0,
       ConstantCoefficientFunction 5 :: unit CoefficientFunction]
     = Inr \<lparr>nv_Dim = 3, coeff_index = ConstantCoefficientFunction 1,
            coeff_g = ConstantCoefficientFunction 0, coeff_Gx = ConstantCoefficientFunction 1,
            coeff_Gy = ConstantCoefficientFunction 0, coeff_Gz = ConstantCoefficientFunction 5,
            indx = 0\<rparr>"
proof
  show "NeumannVolume 2 [ConstantCoefficientFunction 1, ConstantCoefficientFunction 0,
       ConstantCoefficientFunction 1, ConstantCoefficientFunction 0 :: unit CoefficientFunction]
     = Inl RangeError"
    by (simp add: NeumannVolume_def Array_get_def and_then_def)
  have "index_of (EvaluateConst (ConstantCoefficientFunction 1 :: unit CoefficientFunction))
      = Inr 0"
    using index_of_of_int [of 1]
    by (simp add: ConstantCoefficientFunction_def INT_MIN_def INT_MAX_def)
  then show "NeumannVolume 3 [ConstantCoefficientFunction 1, ConstantCoefficientFunction 0,
       ConstantCoefficientFunction 1, ConstantCoefficientFunction 0,
       ConstantCoefficientFunction 5 :: unit CoefficientFunction]
     = Inr \<lparr>nv_Dim = 3, coeff_index = ConstantCoefficientFunction 1,
            coeff_g = ConstantCoefficientFunction 0, coeff_Gx = ConstantCoefficientFunction 1,
            coeff_Gy = ConstantCoefficientFunction 0, coeff_Gz = ConstantCoefficientFunction 5,
            indx = 0\<rparr>"
    by (simp add: NeumannVolume_def Array_get_def and_then_Inr)
qed


section \<open>The extraction of a component\<close>

text \<open>
  Claim C5. Let the component selected by \<^verbatim>\<open>ind\<close> be a complex vector \<open>zs\<close>. With
  the real flag and a real destination of the length of \<open>zs\<close>, \<^verbatim>\<open>Do\<close> leaves the
  real parts of \<open>zs\<close> in the destination; with the imaginary flag alone, the imaginary
  parts; with neither flag and a complex destination of that length, the destination is
  \<open>zs\<close>. Nothing else of the numproc changes.
\<close>

theorem Do_extracts_component:
  assumes "GetComponent (gf1 this) (ind this) = Inr (ComplexVector zs)"
  shows "(re this \<and> Vector (gf2 this) = RealVector xs \<and> length xs = length zs \<longrightarrow>
            snd (Do this) = Inr (this\<lparr>gf2 := (gf2 this)\<lparr>Vector := RealVector (map Re zs)\<rparr>\<rparr>))
       \<and> (\<not> re this \<and> im this \<and> Vector (gf2 this) = RealVector xs \<and> length xs = length zs \<longrightarrow>
            snd (Do this) = Inr (this\<lparr>gf2 := (gf2 this)\<lparr>Vector := RealVector (map Im zs)\<rparr>\<rparr>))
       \<and> (\<not> re this \<and> \<not> im this \<and> Vector (gf2 this) = ComplexVector ws
              \<and> length ws = length zs \<longrightarrow>
            snd (Do this) = Inr (this\<lparr>gf2 := (gf2 this)\<lparr>Vector := ComplexVector zs\<rparr>\<rparr>))"
proof (intro conjI impI)
  assume a: "re this \<and> Vector (gf2 this) = RealVector xs \<and> length xs = length zs"
  then have "copy_part Re 0 this =
      Inr (this\<lparr>gf2 := (gf2 this)\<lparr>Vector := RealVector (map Re zs)\<rparr>\<rparr>)"
    using copy_part_closed [OF assms, of xs 0 Re] by simp
  with a show "snd (Do this) = Inr (this\<lparr>gf2 := (gf2 this)\<lparr>Vector := RealVector (map Re zs)\<rparr>\<rparr>)"
    by (simp add: Do_def)
next
  assume a: "\<not> re this \<and> im this \<and> Vector (gf2 this) = RealVector xs \<and> length xs = length zs"
  then have "copy_part Im 0 this =
      Inr (this\<lparr>gf2 := (gf2 this)\<lparr>Vector := RealVector (map Im zs)\<rparr>\<rparr>)"
    using copy_part_closed [OF assms, of xs 0 Im] by simp
  with a show "snd (Do this) = Inr (this\<lparr>gf2 := (gf2 this)\<lparr>Vector := RealVector (map Im zs)\<rparr>\<rparr>)"
    by (simp add: Do_def)
next
  assume a: "\<not> re this \<and> \<not> im this \<and> Vector (gf2 this) = ComplexVector ws
              \<and> length ws = length zs"
  with assms show "snd (Do this) = Inr (this\<lparr>gf2 := (gf2 this)\<lparr>Vector := ComplexVector zs\<rparr>\<rparr>)"
    by (simp add: Do_def and_then_Inr assign_def)
qed

theorem Do_extracts_component_witness:
  "snd (Do \<lparr>gf1 = \<lparr>ClassName = ''compound'', Vector = ComplexVector [],
                  Components = [ComplexVector [Complex 1 2, Complex 3 4]]\<rparr>,
            gf2 = \<lparr>ClassName = ''l2'', Vector = RealVector [0, 0], Components = []\<rparr>,
            ind = 0, re = True, im = False\<rparr>)
     = Inr \<lparr>gf1 = \<lparr>ClassName = ''compound'', Vector = ComplexVector [],
                  Components = [ComplexVector [Complex 1 2, Complex 3 4]]\<rparr>,
            gf2 = \<lparr>ClassName = ''l2'', Vector = RealVector [1, 3], Components = []\<rparr>,
            ind = 0, re = True, im = False\<rparr>
   \<and> snd (Do \<lparr>gf1 = \<lparr>ClassName = ''compound'', Vector = ComplexVector [],
                  Components = [ComplexVector [Complex 1 2, Complex 3 4]]\<rparr>,
            gf2 = \<lparr>ClassName = ''l2'', Vector = RealVector [0, 0], Components = []\<rparr>,
            ind = 0, re = False, im = True\<rparr>)
     = Inr \<lparr>gf1 = \<lparr>ClassName = ''compound'', Vector = ComplexVector [],
                  Components = [ComplexVector [Complex 1 2, Complex 3 4]]\<rparr>,
            gf2 = \<lparr>ClassName = ''l2'', Vector = RealVector [2, 4], Components = []\<rparr>,
            ind = 0, re = False, im = True\<rparr>
   \<and> snd (Do \<lparr>gf1 = \<lparr>ClassName = ''compound'', Vector = ComplexVector [],
                  Components = [ComplexVector [Complex 1 2, Complex 3 4]]\<rparr>,
            gf2 = \<lparr>ClassName = ''l2'', Vector = ComplexVector [0, 0], Components = []\<rparr>,
            ind = 0, re = False, im = False\<rparr>)
     = Inr \<lparr>gf1 = \<lparr>ClassName = ''compound'', Vector = ComplexVector [],
                  Components = [ComplexVector [Complex 1 2, Complex 3 4]]\<rparr>,
            gf2 = \<lparr>ClassName = ''l2'', Vector = ComplexVector [Complex 1 2, Complex 3 4],
                   Components = []\<rparr>,
            ind = 0, re = False, im = False\<rparr>"
proof -
  let ?g1 = "\<lparr>ClassName = ''compound'', Vector = ComplexVector [],
              Components = [ComplexVector [Complex 1 2, Complex 3 4]]\<rparr>"
  let ?r = "\<lparr>ClassName = ''l2'', Vector = RealVector [0, 0], Components = []\<rparr>"
  let ?c = "\<lparr>ClassName = ''l2'', Vector = ComplexVector [0, 0], Components = []\<rparr>"
  have c: "\<And>g b1 b2. GetComponent (gf1 \<lparr>gf1 = ?g1, gf2 = g, ind = 0, re = b1, im = b2\<rparr>)
              (ind \<lparr>gf1 = ?g1, gf2 = g, ind = 0, re = b1, im = b2\<rparr>)
            = Inr (ComplexVector [Complex 1 2, Complex 3 4])"
    by (simp add: GetComponent_0)
  show ?thesis
    using Do_extracts_component [OF c [of ?r True False], of "[0, 0]" "[]"]
      Do_extracts_component [OF c [of ?r False True], of "[0, 0]" "[]"]
      Do_extracts_component [OF c [of ?c False False], of "[]" "[0, 0]"]
    by simp
qed

text \<open>
  Claim C9. With both flags set \<^verbatim>\<open>Do\<close> takes the branch of the real flag: it prints
  the line of the real part, it prints and leaves in the destination what it does with the
  real flag alone, and in the setting of C5 the destination holds the real parts.
\<close>

theorem both_flags_as_real_flag:
  "fst (Do (this\<lparr>re := True, im := True\<rparr>)) =
     [Str ''GetComponent '', Num (ind this + 1), Str '', of type '', Str (ClassName (gf2 this)),
      Str '', REAL part'', Endl]
   \<and> fst (Do (this\<lparr>re := True, im := True\<rparr>)) = fst (Do (this\<lparr>re := True, im := False\<rparr>))
   \<and> map_sum (\<lambda>e. e) gf2 (snd (Do (this\<lparr>re := True, im := True\<rparr>)))
       = map_sum (\<lambda>e. e) gf2 (snd (Do (this\<lparr>re := True, im := False\<rparr>)))
   \<and> (GetComponent (gf1 this) (ind this) = Inr (ComplexVector zs)
        \<and> Vector (gf2 this) = RealVector xs \<and> length xs = length zs \<longrightarrow>
      map_sum (\<lambda>e. e) (\<lambda>n. Vector (gf2 n)) (snd (Do (this\<lparr>re := True, im := True\<rparr>)))
        = Inr (RealVector (map Re zs)))"
proof (intro conjI impI)
  show "fst (Do (this\<lparr>re := True, im := True\<rparr>)) =
     [Str ''GetComponent '', Num (ind this + 1), Str '', of type '', Str (ClassName (gf2 this)),
      Str '', REAL part'', Endl]"
    by (simp add: Do_def)
  show "fst (Do (this\<lparr>re := True, im := True\<rparr>)) = fst (Do (this\<lparr>re := True, im := False\<rparr>))"
    by (simp add: Do_def)
  have "copy_part Re 0 (this\<lparr>re := True, im := True\<rparr>)
          = map_sum (\<lambda>e. e) (\<lambda>n. n\<lparr>im := True\<rparr>) (copy_part Re 0 (this\<lparr>re := True\<rparr>))"
    by (rule copy_part_im)
  moreover have "copy_part Re 0 (this\<lparr>re := True, im := False\<rparr>)
          = map_sum (\<lambda>e. e) (\<lambda>n. n\<lparr>im := False\<rparr>) (copy_part Re 0 (this\<lparr>re := True\<rparr>))"
    by (rule copy_part_im)
  ultimately show "map_sum (\<lambda>e. e) gf2 (snd (Do (this\<lparr>re := True, im := True\<rparr>)))
       = map_sum (\<lambda>e. e) gf2 (snd (Do (this\<lparr>re := True, im := False\<rparr>)))"
    by (cases "copy_part Re 0 (this\<lparr>re := True\<rparr>)") (simp_all add: Do_def)
next
  assume a: "GetComponent (gf1 this) (ind this) = Inr (ComplexVector zs)
        \<and> Vector (gf2 this) = RealVector xs \<and> length xs = length zs"
  let ?np = "this\<lparr>re := True, im := True\<rparr>"
  have "copy_part Re 0 ?np =
      Inr (?np\<lparr>gf2 := (gf2 ?np)\<lparr>Vector := RealVector (take 0 xs @ map Re (drop 0 (take (length xs) zs)))\<rparr>\<rparr>)"
    by (rule copy_part_closed) (use a in simp_all)
  with a show "map_sum (\<lambda>e. e) (\<lambda>n. Vector (gf2 n)) (snd (Do (this\<lparr>re := True, im := True\<rparr>)))
        = Inr (RealVector (map Re zs))"
    by (simp add: Do_def)
qed

theorem both_flags_as_real_flag_witness:
  "map_sum (\<lambda>e. e) (\<lambda>n. Vector (gf2 n))
     (snd (Do \<lparr>gf1 = \<lparr>ClassName = ''compound'', Vector = ComplexVector [],
                      Components = [ComplexVector [Complex 1 2, Complex 3 4]]\<rparr>,
               gf2 = \<lparr>ClassName = ''l2'', Vector = RealVector [0, 0], Components = []\<rparr>,
               ind = 0, re = True, im = True\<rparr>))
     = Inr (RealVector [1, 3])"
  using both_flags_as_real_flag [of
      "\<lparr>gf1 = \<lparr>ClassName = ''compound'', Vector = ComplexVector [],
                      Components = [ComplexVector [Complex 1 2, Complex 3 4]]\<rparr>,
               gf2 = \<lparr>ClassName = ''l2'', Vector = RealVector [0, 0], Components = []\<rparr>,
               ind = 0, re = False, im = False\<rparr>" "[Complex 1 2, Complex 3 4]" "[0, 0]"]
  by (simp add: GetComponent_0)

text \<open>
  Claim C10. Without the numeric flag \<^verbatim>\<open>comp\<close> a constructed numproc has the index
  0, and \<^verbatim>\<open>Do\<close> extracts the first component of the grid function named by
  \<^verbatim>\<open>compoundgf\<close>: when that component is the complex vector \<open>zs\<close>, the
  destination receives the real parts of \<open>zs\<close>, its imaginary parts or \<open>zs\<close> itself,
  as the flags say.
\<close>

theorem default_component:
  assumes "NumFlags flags ''comp'' = None"
    and "NumProcGetComponent apde flags = Inr this"
    and "Components (gf1 this) = ComplexVector zs # cs"
  shows "ind this = 0
       \<and> (\<exists>n. StringFlags flags ''compoundgf'' = Some n \<and> apde n = Some (gf1 this))
       \<and> (re this \<and> Vector (gf2 this) = RealVector xs \<and> length xs = length zs \<longrightarrow>
            snd (Do this) = Inr (this\<lparr>gf2 := (gf2 this)\<lparr>Vector := RealVector (map Re zs)\<rparr>\<rparr>))
       \<and> (\<not> re this \<and> im this \<and> Vector (gf2 this) = RealVector xs \<and> length xs = length zs \<longrightarrow>
            snd (Do this) = Inr (this\<lparr>gf2 := (gf2 this)\<lparr>Vector := RealVector (map Im zs)\<rparr>\<rparr>))
       \<and> (\<not> re this \<and> \<not> im this \<and> Vector (gf2 this) = ComplexVector ws
              \<and> length ws = length zs \<longrightarrow>
            snd (Do this) = Inr (this\<lparr>gf2 := (gf2 this)\<lparr>Vector := ComplexVector zs\<rparr>\<rparr>))"
proof -
  have k: "double_to_int (double_sub (GetNumFlag flags ''comp'' 1) 1) = Inr 0"
    using assms(1)
    by (simp add: GetNumFlag_def double_sub_def round_double_0 double_to_int_def trunc_def
        INT_MIN_def INT_MAX_def)
  from assms(2) obtain g1 g2 where
    g: "GetGridFunction apde (GetStringFlag flags ''compoundgf'') = Inr g1"
      "this = \<lparr>gf1 = g1, gf2 = g2, ind = 0,
            re = GetDefineFlag flags ''re'', im = GetDefineFlag flags ''im''\<rparr>"
    by (auto simp add: NumProcGetComponent_def k and_then_def split: sum.splits)
  from g(1) have n: "\<exists>n. StringFlags flags ''compoundgf'' = Some n \<and> apde n = Some g1"
    by (auto simp add: GetGridFunction_def GetStringFlag_def split: option.splits)
  have i: "ind this = 0"
    using g(2) by simp
  have c: "GetComponent (gf1 this) (ind this) = Inr (ComplexVector zs)"
    using assms(3) i by (simp add: GetComponent_def)
  have "re this \<and> Vector (gf2 this) = RealVector xs \<and> length xs = length zs \<longrightarrow>
      snd (Do this) = Inr (this\<lparr>gf2 := (gf2 this)\<lparr>Vector := RealVector (map Re zs)\<rparr>\<rparr>)"
    using copy_part_closed [OF c, of xs 0 Re] by (simp add: Do_def)
  moreover have "\<not> re this \<and> im this \<and> Vector (gf2 this) = RealVector xs
      \<and> length xs = length zs \<longrightarrow>
      snd (Do this) = Inr (this\<lparr>gf2 := (gf2 this)\<lparr>Vector := RealVector (map Im zs)\<rparr>\<rparr>)"
    using copy_part_closed [OF c, of xs 0 Im] by (simp add: Do_def)
  moreover have "\<not> re this \<and> \<not> im this \<and> Vector (gf2 this) = ComplexVector ws
      \<and> length ws = length zs \<longrightarrow>
      snd (Do this) = Inr (this\<lparr>gf2 := (gf2 this)\<lparr>Vector := ComplexVector zs\<rparr>\<rparr>)"
    using c by (simp add: Do_def and_then_Inr assign_def)
  ultimately show ?thesis
    using i n g(2) by simp
qed

theorem default_component_witness:
  "\<exists>this. NumProcGetComponent
       [''u'' \<mapsto> \<lparr>ClassName = ''compound'', Vector = ComplexVector [],
                   Components = [ComplexVector [Complex 1 2], ComplexVector [Complex 5 6]]\<rparr>,
        ''w'' \<mapsto> \<lparr>ClassName = ''l2'', Vector = RealVector [0], Components = []\<rparr>]
       \<lparr>StringFlags = [''compoundgf'' \<mapsto> ''u'', ''componentgf'' \<mapsto> ''w''],
        NumFlags = Map.empty, DefineFlags = [''re'']\<rparr> = Inr this
     \<and> ind this = 0
     \<and> map_sum (\<lambda>e. e) (\<lambda>n. Vector (gf2 n)) (snd (Do this)) = Inr (RealVector [1])"
proof -
  let ?g = "\<lparr>ClassName = ''compound'', Vector = ComplexVector [],
                   Components = [ComplexVector [Complex 1 2], ComplexVector [Complex 5 6]]\<rparr>"
  let ?h = "\<lparr>ClassName = ''l2'', Vector = RealVector [0], Components = []\<rparr>"
  let ?pde = "[''u'' \<mapsto> ?g, ''w'' \<mapsto> ?h]"
  let ?flags = "\<lparr>StringFlags = [''compoundgf'' \<mapsto> ''u'', ''componentgf'' \<mapsto> ''w''],
        NumFlags = Map.empty, DefineFlags = [''re'']\<rparr>"
  let ?np = "\<lparr>gf1 = ?g, gf2 = ?h, ind = 0, re = True, im = False\<rparr>"
  have t: "NumProcGetComponent ?pde ?flags = Inr ?np"
    by (simp add: NumProcGetComponent_def GetGridFunction_def GetStringFlag_def GetNumFlag_def
        GetDefineFlag_def and_then_def double_sub_def round_double_0 double_to_int_def trunc_def
        INT_MIN_def INT_MAX_def)
  have f: "NumFlags ?flags ''comp'' = None" by simp
  have c: "Components (gf1 ?np) = ComplexVector [Complex 1 2] # [ComplexVector [Complex 5 6]]"
    by simp
  from default_component [OF f t c, of "[0]" "[]"] t show ?thesis
    by simp
qed

end
